theory Spec2Isabelle
  imports Complex_Main "HOL-Library.AList"
begin

section \<open>The graph model\<close>

text \<open>
  The converter \<^verbatim>\<open>tools/qnn/convert_kokoro_static.py\<close> works on an ONNX model held in
  memory as protobuf messages. Each message the script reads or writes is a record here,
  with the repeated fields as lists. Integers are Python integers (\<open>int\<close>). A function
  of the script that mutates the model in place and returns it is a function from the
  model to the new model; an exception is the left summand of the result.
\<close>

datatype py_error = ValueError | FileNotFoundError | CheckError

text \<open>
  A dimension of a tensor shape holds at most one of \<^verbatim>\<open>dim_value\<close> and \<^verbatim>\<open>dim_param\<close>.
  Reading the field that is not set gives the default of its type: 0 or the empty string.
\<close>

datatype dim = DimValue int | DimParam string | DimUnset

fun dim_value :: "dim \<Rightarrow> int" where
  "dim_value (DimValue v) = v"
| "dim_value (DimParam s) = 0"
| "dim_value DimUnset = 0"

fun dim_param :: "dim \<Rightarrow> string" where
  "dim_param (DimValue v) = []"
| "dim_param (DimParam s) = s"
| "dim_param DimUnset = []"

text \<open>A graph input or output: \<^verbatim>\<open>name\<close>, \<^verbatim>\<open>type.tensor_type.elem_type\<close> and
  \<^verbatim>\<open>type.tensor_type.shape.dim\<close>.\<close>

record value_info =
  vi_name :: string
  vi_elem_type :: int
  vi_dim :: "dim list"

datatype attribute = AttrInt int | AttrInts "int list" | AttrFloat real | AttrString string

record node_proto =
  op_type :: string
  node_input :: "string list"
  node_output :: "string list"
  node_attribute :: "(string \<times> attribute) list"

datatype tensor_data = Float32Data "real list" | Int64Data "int list"

record tensor_proto =
  t_name :: string
  t_data_type :: int
  t_dims :: "int list"
  t_data :: tensor_data

record graph_proto =
  graph_input :: "value_info list"
  graph_output :: "value_info list"
  graph_node :: "node_proto list"
  graph_initializer :: "tensor_proto list"

record model_proto =
  ir_version :: int
  opset_import :: "int list"
  graph :: graph_proto

section \<open>Shape fixer: \<^verbatim>\<open>fix_input_shapes\<close>\<close>

text \<open>The loop \<^verbatim>\<open>while len(dim) > 0: dim.pop()\<close> removes the last dimension until
  none is left.\<close>

function clear_dims :: "dim list \<Rightarrow> dim list" where
  "clear_dims ds = (if length ds > 0 then clear_dims (butlast ds) else ds)"
  by pat_completeness auto
termination
  by (relation "measure length") auto

declare clear_dims.simps [simp del]

text \<open>\<^verbatim>\<open>d = dim.add(); d.dim_value = v\<close> appends a dimension holding the literal \<open>v\<close>.\<close>

definition add_dim_value :: "dim list \<Rightarrow> int \<Rightarrow> dim list" where
  "add_dim_value ds v = ds @ [DimValue v]"

definition seq_input_names :: "string list" where
  "seq_input_names = [''input_ids'', ''tokens'']"

text \<open>The body of the loop over \<^verbatim>\<open>model.graph.input\<close> (lines 92 to 101).\<close>

definition fix_input :: "int \<Rightarrow> value_info \<Rightarrow> value_info" where
  "fix_input seq_length inp =
     (if vi_name inp \<in> set seq_input_names
      then inp\<lparr>vi_dim := add_dim_value (add_dim_value (clear_dims (vi_dim inp)) 1) seq_length\<rparr>
      else inp)"

fun fix_inputs :: "int \<Rightarrow> value_info list \<Rightarrow> value_info list" where
  "fix_inputs seq_length [] = []"
| "fix_inputs seq_length (inp # rest) = fix_input seq_length inp # fix_inputs seq_length rest"

definition fix_input_shapes :: "model_proto \<Rightarrow> int \<Rightarrow> model_proto" where
  "fix_input_shapes model seq_length =
     model\<lparr>graph := (graph model)\<lparr>graph_input := fix_inputs seq_length (graph_input (graph model))\<rparr>\<rparr>"

section \<open>Output stabilizer, declarative mode: \<^verbatim>\<open>fix_output_shapes\<close>\<close>

definition audio_output_names :: "string list" where
  "audio_output_names = [''audio'', ''waveform'']"

text \<open>The body of the loop over \<^verbatim>\<open>model.graph.output\<close> (lines 119 to 126).\<close>

definition fix_output :: "int \<Rightarrow> value_info \<Rightarrow> value_info" where
  "fix_output max_audio_samples out =
     (if vi_name out \<in> set audio_output_names
      then out\<lparr>vi_dim := add_dim_value (clear_dims (vi_dim out)) max_audio_samples\<rparr>
      else out)"

fun fix_outputs :: "int \<Rightarrow> value_info list \<Rightarrow> value_info list" where
  "fix_outputs max_audio_samples [] = []"
| "fix_outputs max_audio_samples (out # rest) =
     fix_output max_audio_samples out # fix_outputs max_audio_samples rest"

definition fix_output_shapes :: "model_proto \<Rightarrow> int \<Rightarrow> model_proto" where
  "fix_output_shapes model max_audio_samples =
     model\<lparr>graph := (graph model)\<lparr>graph_output :=
       fix_outputs max_audio_samples (graph_output (graph model))\<rparr>\<rparr>"

section \<open>Output stabilizer, structural mode: \<^verbatim>\<open>add_output_padding\<close>\<close>

text \<open>Line 149: the names of the graph outputs that are in the selector list, in graph
  order.\<close>

fun output_names :: "value_info list \<Rightarrow> string list" where
  "output_names [] = []"
| "output_names (out # rest) =
     (if vi_name out \<in> set audio_output_names then vi_name out # output_names rest
      else output_names rest)"

text \<open>Lines 157 to 161: the first node with the name among its outputs, as its index in
  \<^verbatim>\<open>model.graph.node\<close>; \<open>None\<close> when the loop ends without a \<^verbatim>\<open>break\<close>.\<close>

fun find_producer :: "string \<Rightarrow> node_proto list \<Rightarrow> nat option" where
  "find_producer original_output [] = None"
| "find_producer original_output (n # ns) =
     (if original_output \<in> set (node_output n) then Some 0
      else map_option Suc (find_producer original_output ns))"

text \<open>Lines 174 to 176: every output slot of the producer that holds the original name
  is set to the intermediate name.\<close>

fun rename_outputs :: "string \<Rightarrow> string \<Rightarrow> string list \<Rightarrow> string list" where
  "rename_outputs original_output intermediate_output [] = []"
| "rename_outputs original_output intermediate_output (out # rest) =
     (if out = original_output then intermediate_output else out)
       # rename_outputs original_output intermediate_output rest"

text \<open>\<^verbatim>\<open>np.zeros(n, dtype=np.float32)\<close> raises \<^verbatim>\<open>ValueError\<close> for a negative length.\<close>

definition np_zeros :: "int \<Rightarrow> py_error + real list" where
  "np_zeros n = (if n < 0 then Inl ValueError else Inr (replicate (nat n) 0))"

text \<open>\<^verbatim>\<open>numpy_helper.from_array\<close> of a one-dimensional array: the element type
  (\<^verbatim>\<open>TensorProto.FLOAT\<close> is 1, \<^verbatim>\<open>TensorProto.INT64\<close> is 7), the shape, the data, the name.\<close>

definition from_array_float32 :: "real list \<Rightarrow> string \<Rightarrow> tensor_proto" where
  "from_array_float32 xs name =
     \<lparr>t_name = name, t_data_type = 1, t_dims = [int (length xs)], t_data = Float32Data xs\<rparr>"

definition from_array_int64 :: "int list \<Rightarrow> string \<Rightarrow> tensor_proto" where
  "from_array_int64 xs name =
     \<lparr>t_name = name, t_data_type = 7, t_dims = [int (length xs)], t_data = Int64Data xs\<rparr>"

definition make_node ::
  "string \<Rightarrow> string list \<Rightarrow> string list \<Rightarrow> (string \<times> attribute) list \<Rightarrow> node_proto" where
  "make_node op ins outs attrs =
     \<lparr>op_type = op, node_input = ins, node_output = outs, node_attribute = attrs\<rparr>"

text \<open>Lines 216 to 221: every graph output with the original name gets the one literal
  dimension.\<close>

fun update_output_shape :: "string \<Rightarrow> int \<Rightarrow> value_info list \<Rightarrow> value_info list" where
  "update_output_shape original_output max_audio_samples [] = []"
| "update_output_shape original_output max_audio_samples (out # rest) =
     (if vi_name out = original_output
      then out\<lparr>vi_dim := add_dim_value (clear_dims (vi_dim out)) max_audio_samples\<rparr>
      else out)
       # update_output_shape original_output max_audio_samples rest"

definition add_output_padding :: "model_proto \<Rightarrow> int \<Rightarrow> py_error + model_proto" where
  "add_output_padding model max_audio_samples =
     (case output_names (graph_output (graph model)) of
        [] \<Rightarrow> Inr model
      | original_output # _ \<Rightarrow>
          (case find_producer original_output (graph_node (graph model)) of
             None \<Rightarrow> Inr model
           | Some i \<Rightarrow>
               let intermediate_output = original_output @ ''_unpadded'';
                   producer_node = graph_node (graph model) ! i;
                   nodes1 = (graph_node (graph model))
                     [i := producer_node\<lparr>node_output :=
                        rename_outputs original_output intermediate_output
                          (node_output producer_node)\<rparr>]
               in (case np_zeros max_audio_samples of
                     Inl e \<Rightarrow> Inl e
                   | Inr z \<Rightarrow>
                       let zeros = from_array_float32 z ''padding_zeros'';
                           inits1 = graph_initializer (graph model) @ [zeros];
                           concat_output = original_output @ ''_concat'';
                           concat_node = make_node ''Concat''
                             [intermediate_output, ''padding_zeros''] [concat_output]
                             [(''axis'', AttrInt 0)];
                           nodes2 = nodes1 @ [concat_node];
                           starts = from_array_int64 [0] ''slice_starts'';
                           ends = from_array_int64 [max_audio_samples] ''slice_ends'';
                           axes = from_array_int64 [0] ''slice_axes'';
                           inits2 = inits1 @ [starts, ends, axes];
                           slice_node = make_node ''Slice''
                             [concat_output, ''slice_starts'', ''slice_ends'', ''slice_axes'']
                             [original_output] [];
                           nodes3 = nodes2 @ [slice_node]
                       in Inr (model\<lparr>graph := (graph model)
                            \<lparr>graph_output := update_output_shape original_output
                               max_audio_samples (graph_output (graph model)),
                             graph_node := nodes3,
                             graph_initializer := inits2\<rparr>\<rparr>))))"

section \<open>Introspector: \<^verbatim>\<open>analyze_model\<close>\<close>

text \<open>An entry of a reported shape is a Python integer or a string.\<close>

datatype shape_entry = IntEntry int | StrEntry string

text \<open>Lines 54 to 59 (and 70 to 75): the two tests are Python truth tests, so the value 0
  and the empty string both fall through to the last branch.\<close>

definition report_dim :: "dim \<Rightarrow> shape_entry" where
  "report_dim d =
     (if dim_value d \<noteq> 0 then IntEntry (dim_value d)
      else if dim_param d \<noteq> [] then StrEntry (dim_param d)
      else IntEntry (- 1))"

fun report_shape :: "dim list \<Rightarrow> shape_entry list \<Rightarrow> shape_entry list" where
  "report_shape [] shape = shape"
| "report_shape (d # ds) shape = report_shape ds (shape @ [report_dim d])"

text \<open>\<^verbatim>\<open>str\<close> of an integer, for an element type that \<^verbatim>\<open>type_map\<close> does not list.\<close>

fun str_nat :: "nat \<Rightarrow> string" where
  "str_nat n =
     (if n < 10 then [''0123456789'' ! n]
      else str_nat (n div 10) @ [''0123456789'' ! (n mod 10)])"

declare str_nat.simps [simp del]

definition str_int :: "int \<Rightarrow> string" where
  "str_int i = (if i < 0 then CHR ''-'' # str_nat (nat (- i)) else str_nat (nat i))"

text \<open>The keys of \<^verbatim>\<open>type_map\<close> are the values of the \<^verbatim>\<open>TensorProto\<close> element types
  \<^verbatim>\<open>FLOAT\<close>, \<^verbatim>\<open>INT32\<close>, \<^verbatim>\<open>INT64\<close>, \<^verbatim>\<open>BOOL\<close> and \<^verbatim>\<open>FLOAT16\<close> in the ONNX format.\<close>

definition type_map :: "(int \<times> string) list" where
  "type_map =
     [(1, ''FLOAT''), (6, ''INT32''), (7, ''INT64''), (9, ''BOOL''), (10, ''FLOAT16'')]"

definition dtype_of :: "int \<Rightarrow> string" where
  "dtype_of elem_type =
     (case map_of type_map elem_type of Some s \<Rightarrow> s | None \<Rightarrow> str_int elem_type)"

record tensor_info =
  ti_shape :: "shape_entry list"
  ti_dtype :: string

text \<open>The dictionary \<^verbatim>\<open>info\<close>; its sub-dictionaries are association lists in insertion
  order, and storing under a key that is present replaces the value in place.\<close>

record info =
  info_inputs :: "(string \<times> tensor_info) list"
  info_outputs :: "(string \<times> tensor_info) list"
  info_opset :: "int list"
  info_ir_version :: int

definition describe_tensor :: "value_info \<Rightarrow> tensor_info" where
  "describe_tensor inp =
     \<lparr>ti_shape = report_shape (vi_dim inp) [], ti_dtype = dtype_of (vi_elem_type inp)\<rparr>"

fun analyze_tensors ::
  "value_info list \<Rightarrow> (string \<times> tensor_info) list \<Rightarrow> (string \<times> tensor_info) list" where
  "analyze_tensors [] d = d"
| "analyze_tensors (inp # rest) d =
     analyze_tensors rest (AList.update (vi_name inp) (describe_tensor inp) d)"

text \<open>
  The files that hold a model, by path, and the log of the calls of \<^verbatim>\<open>onnx.save\<close>.
  \<^verbatim>\<open>onnx.load\<close> raises when the path holds no model.
\<close>

record world =
  w_files :: "string \<Rightarrow> model_proto option"
  w_saved :: "(string \<times> model_proto) list"

definition onnx_load :: "world \<Rightarrow> string \<Rightarrow> py_error + model_proto" where
  "onnx_load w path = (case w_files w path of None \<Rightarrow> Inl FileNotFoundError | Some m \<Rightarrow> Inr m)"

definition onnx_save :: "model_proto \<Rightarrow> string \<Rightarrow> world \<Rightarrow> world" where
  "onnx_save model path w =
     w\<lparr>w_files := (w_files w)(path \<mapsto> model), w_saved := w_saved w @ [(path, model)]\<rparr>"

definition analyze_loaded :: "model_proto \<Rightarrow> info" where
  "analyze_loaded model =
     \<lparr>info_inputs = analyze_tensors (graph_input (graph model)) [],
      info_outputs = analyze_tensors (graph_output (graph model)) [],
      info_opset = opset_import model,
      info_ir_version = ir_version model\<rparr>"

definition analyze_model :: "world \<Rightarrow> string \<Rightarrow> py_error + info" where
  "analyze_model w model_path =
     (case onnx_load w model_path of Inl e \<Rightarrow> Inl e | Inr model \<Rightarrow> Inr (analyze_loaded model))"

section \<open>Validator and pipeline: \<^verbatim>\<open>validate_model\<close>, \<^verbatim>\<open>main\<close>\<close>

text \<open>\<^verbatim>\<open>onnx.checker.check_model\<close> belongs to the ONNX library: it is a parameter that
  returns or raises.\<close>

definition validate_model :: "(model_proto \<Rightarrow> py_error + unit) \<Rightarrow> model_proto \<Rightarrow> bool" where
  "validate_model check_model model =
     (case check_model model of Inr u \<Rightarrow> True | Inl e \<Rightarrow> False)"

text \<open>The parsed command line. \<^verbatim>\<open>--output\<close> is optional, so it may be \<^verbatim>\<open>None\<close>.\<close>

record args =
  arg_input :: string
  arg_output :: "string option"
  arg_seq_length :: int
  arg_max_audio_samples :: int
  arg_add_padding :: bool
  arg_analyze_only :: bool

text \<open>Lines 295 to 302 of \<^verbatim>\<open>main\<close>: the input fix, then one of the two output
  rewrites.\<close>

definition rewrite_model :: "args \<Rightarrow> model_proto \<Rightarrow> py_error + model_proto" where
  "rewrite_model a model =
     (let model1 = fix_input_shapes model (arg_seq_length a)
      in if arg_add_padding a then add_output_padding model1 (arg_max_audio_samples a)
         else Inr (fix_output_shapes model1 (arg_max_audio_samples a)))"

text \<open>\<^verbatim>\<open>main\<close> returns \<^verbatim>\<open>None\<close> or 1; an exception that leaves it is the left summand.\<close>

definition main ::
  "(model_proto \<Rightarrow> py_error + unit) \<Rightarrow> args \<Rightarrow> world \<Rightarrow> py_error + (int option \<times> world)" where
  "main check_model a w =
     (case analyze_model w (arg_input a) of
        Inl e \<Rightarrow> Inl e
      | Inr info0 \<Rightarrow>
          if arg_analyze_only a then Inr (None, w)
          else (case arg_output a of
                  None \<Rightarrow> Inr (Some 1, w)
                | Some out \<Rightarrow>
                    if out = [] then Inr (Some 1, w)
                    else (case onnx_load w (arg_input a) of
                            Inl e \<Rightarrow> Inl e
                          | Inr model \<Rightarrow>
                              (case rewrite_model a model of
                                 Inl e \<Rightarrow> Inl e
                               | Inr model2 \<Rightarrow>
                                   if validate_model check_model model2
                                   then let w1 = onnx_save model2 out w
                                        in (case analyze_model w1 out of
                                              Inl e \<Rightarrow> Inl e
                                            | Inr info1 \<Rightarrow> Inr (None, w1))
                                   else Inr (Some 1, w)))))"

section \<open>Counting what a rewrite changed\<close>

text \<open>
  Two measures used to state what the structural rewrite changes: the number of output
  slots of the nodes of the old graph that hold another name in the new graph, and the
  names of the three constants that bound the slice.
\<close>

fun changed_slots :: "string list \<Rightarrow> string list \<Rightarrow> nat" where
  "changed_slots [] new = 0"
| "changed_slots (a # old) [] = 0"
| "changed_slots (a # old) (b # new) = (if a = b then 0 else 1) + changed_slots old new"

fun renamed_outputs :: "node_proto list \<Rightarrow> node_proto list \<Rightarrow> nat" where
  "renamed_outputs [] new = 0"
| "renamed_outputs (n # old) [] = 0"
| "renamed_outputs (n # old) (n' # new) =
     changed_slots (node_output n) (node_output n') + renamed_outputs old new"

definition slice_bound_names :: "string list" where
  "slice_bound_names = [''slice_starts'', ''slice_ends'', ''slice_axes'']"

fun count_zero_fill :: "tensor_proto list \<Rightarrow> nat" where
  "count_zero_fill [] = 0"
| "count_zero_fill (t # ts) =
     (if t_name t \<in> set slice_bound_names then 0 else 1) + count_zero_fill ts"

section \<open>Example models\<close>

text \<open>A small text-to-speech graph: the token input has a symbolic sequence length, the
  audio output a symbolic length, and the last node produces the output.\<close>

definition example_model :: model_proto where
  "example_model =
     \<lparr>ir_version = 8, opset_import = [17],
      graph = \<lparr>
        graph_input =
          [\<lparr>vi_name = ''tokens'', vi_elem_type = 7, vi_dim = [DimValue 1, DimParam ''seq'']\<rparr>,
           \<lparr>vi_name = ''style'', vi_elem_type = 1, vi_dim = [DimValue 1, DimValue 256]\<rparr>],
        graph_output =
          [\<lparr>vi_name = ''audio'', vi_elem_type = 1, vi_dim = [DimParam ''samples'']\<rparr>],
        graph_node =
          [\<lparr>op_type = ''Gather'', node_input = [''embed'', ''tokens''],
            node_output = [''hidden''], node_attribute = []\<rparr>,
           \<lparr>op_type = ''Tanh'', node_input = [''hidden''],
            node_output = [''audio''], node_attribute = []\<rparr>],
        graph_initializer =
          [\<lparr>t_name = ''embed'', t_data_type = 1, t_dims = [2], t_data = Float32Data [0, 1]\<rparr>]\<rparr>\<rparr>"

text \<open>The same graph with the output under a name the selector list does not hold.\<close>

definition example_no_audio :: model_proto where
  "example_no_audio =
     example_model\<lparr>graph := (graph example_model)\<lparr>graph_output :=
       [\<lparr>vi_name = ''speech'', vi_elem_type = 1, vi_dim = [DimParam ''samples'']\<rparr>]\<rparr>\<rparr>"

text \<open>The same graph with two outputs in the selector list and no node that produces the
  first of them.\<close>

definition example_no_producer :: model_proto where
  "example_no_producer =
     example_model\<lparr>graph := (graph example_model)\<lparr>graph_output :=
       [\<lparr>vi_name = ''waveform'', vi_elem_type = 1, vi_dim = [DimParam ''samples'']\<rparr>,
        \<lparr>vi_name = ''audio'', vi_elem_type = 1, vi_dim = [DimParam ''samples'']\<rparr>]\<rparr>\<rparr>"

text \<open>The same graph with two outputs in the selector list, the first of them produced
  by the last node.\<close>

definition example_two_outputs :: model_proto where
  "example_two_outputs =
     example_model\<lparr>graph := (graph example_model)\<lparr>graph_output :=
       [\<lparr>vi_name = ''audio'', vi_elem_type = 1, vi_dim = [DimParam ''samples'']\<rparr>,
        \<lparr>vi_name = ''waveform'', vi_elem_type = 1, vi_dim = [DimParam ''samples'']\<rparr>]\<rparr>\<rparr>"

text \<open>The same graph with a last node that lists the output name in two of its output
  slots.\<close>

definition example_duplicate_slot :: model_proto where
  "example_duplicate_slot =
     example_model\<lparr>graph := (graph example_model)\<lparr>graph_node :=
       [\<lparr>op_type = ''Gather'', node_input = [''embed'', ''tokens''],
         node_output = [''hidden''], node_attribute = []\<rparr>,
        \<lparr>op_type = ''Split'', node_input = [''hidden''],
         node_output = [''audio'', ''audio''], node_attribute = []\<rparr>]\<rparr>\<rparr>"

text \<open>A graph whose input has a dimension of literal size 0.\<close>

definition example_zero_dim :: model_proto where
  "example_zero_dim =
     example_model\<lparr>graph := (graph example_model)\<lparr>graph_input :=
       [\<lparr>vi_name = ''tokens'', vi_elem_type = 7, vi_dim = [DimValue 1, DimValue 0]\<rparr>]\<rparr>\<rparr>"

text \<open>To compare reports: the model in which every dimension of literal size 0 of a graph
  input or output is replaced by a dimension with nothing set.\<close>

definition forget_zero_dim :: "dim \<Rightarrow> dim" where
  "forget_zero_dim d = (if d = DimValue 0 then DimUnset else d)"

definition forget_zero_info :: "value_info \<Rightarrow> value_info" where
  "forget_zero_info v = v\<lparr>vi_dim := map forget_zero_dim (vi_dim v)\<rparr>"

definition forget_zero_model :: "model_proto \<Rightarrow> model_proto" where
  "forget_zero_model model =
     model\<lparr>graph := (graph model)
       \<lparr>graph_input := map forget_zero_info (graph_input (graph model)),
        graph_output := map forget_zero_info (graph_output (graph model))\<rparr>\<rparr>"

definition example_zero_world :: world where
  "example_zero_world =
     \<lparr>w_files = [''zero.onnx'' \<mapsto> example_zero_dim,
                 ''unset.onnx'' \<mapsto> forget_zero_model example_zero_dim],
      w_saved = []\<rparr>"

definition example_args :: args where
  "example_args =
     \<lparr>arg_input = ''kokoro.onnx'', arg_output = Some ''kokoro_static.onnx'',
      arg_seq_length = 512, arg_max_audio_samples = 3,
      arg_add_padding = True, arg_analyze_only = False\<rparr>"

definition example_world :: world where
  "example_world =
     \<lparr>w_files = [''kokoro.onnx'' \<mapsto> example_model], w_saved = []\<rparr>"

text \<open>Two checkers: one accepts every model, one rejects every model.\<close>

definition check_accepts :: "model_proto \<Rightarrow> py_error + unit" where
  "check_accepts model = Inr ()"

definition check_rejects :: "model_proto \<Rightarrow> py_error + unit" where
  "check_rejects model = Inl CheckError"

section \<open>Shape fixer: properties\<close>

lemma clear_dims_Nil: "clear_dims ds = []"
proof (induction ds rule: clear_dims.induct)
  case (1 ds)
  show ?case
  proof (cases "length ds > 0")
    case True
    with "1" show ?thesis by (subst clear_dims.simps) simp
  next
    case False
    then show ?thesis by (subst clear_dims.simps) simp
  qed
qed

lemma fix_input_matched:
  "vi_name inp \<in> set seq_input_names \<Longrightarrow>
     fix_input L inp = inp\<lparr>vi_dim := [DimValue 1, DimValue L]\<rparr>"
  by (simp add: fix_input_def add_dim_value_def clear_dims_Nil)

lemma fix_input_unmatched:
  "vi_name inp \<notin> set seq_input_names \<Longrightarrow> fix_input L inp = inp"
  by (simp add: fix_input_def)

lemma fix_input_name: "vi_name (fix_input L inp) = vi_name inp"
  by (simp add: fix_input_def)

lemma fix_input_twice: "fix_input L (fix_input L inp) = fix_input L inp"
  by (cases "vi_name inp \<in> set seq_input_names")
     (simp_all add: fix_input_matched fix_input_unmatched)

lemma fix_inputs_twice: "fix_inputs L (fix_inputs L inps) = fix_inputs L inps"
  by (induction inps) (simp_all add: fix_input_twice)

lemma length_fix_inputs: "length (fix_inputs L inps) = length inps"
  by (induction inps) simp_all

lemma nth_fix_inputs: "i < length inps \<Longrightarrow> fix_inputs L inps ! i = fix_input L (inps ! i)"
proof (induction inps arbitrary: i)
  case Nil
  then show ?case by simp
next
  case (Cons inp rest)
  then show ?case by (cases i) simp_all
qed

text \<open>
  C8. \<^verbatim>\<open>fix_input_shapes\<close> is idempotent: a second run with the same length on the
  model the first run returned gives that model again.
\<close>

theorem fix_input_shapes_idempotent:
  "fix_input_shapes (fix_input_shapes model L) L = fix_input_shapes model L"
  by (simp add: fix_input_shapes_def fix_inputs_twice)

text \<open>
  C3. After \<^verbatim>\<open>fix_input_shapes\<close> with target length \<open>L\<close>, every graph input whose
  name is in the selector list has the shape \<open>[1, L]\<close> in place of its old shape and is
  otherwise as before, every other input is unchanged, and the outputs, the nodes and the
  initializers are those of the model given. This holds for every model and every \<open>L\<close>,
  so for every \<open>L > 0\<close>.
\<close>

theorem fix_input_shapes_shapes:
  "(let ins = graph_input (graph model);
        outs = graph_input (graph (fix_input_shapes model L))
    in length outs = length ins \<and>
       (\<forall>i < length ins.
          (vi_name (ins ! i) \<in> set seq_input_names \<longrightarrow>
             outs ! i = (ins ! i)\<lparr>vi_dim := [DimValue 1, DimValue L]\<rparr>) \<and>
          (vi_name (ins ! i) \<notin> set seq_input_names \<longrightarrow> outs ! i = ins ! i))) \<and>
   graph_output (graph (fix_input_shapes model L)) = graph_output (graph model) \<and>
   graph_node (graph (fix_input_shapes model L)) = graph_node (graph model) \<and>
   graph_initializer (graph (fix_input_shapes model L)) = graph_initializer (graph model)"
  by (simp add: fix_input_shapes_def Let_def length_fix_inputs nth_fix_inputs
        fix_input_matched fix_input_unmatched)

theorem fix_input_shapes_shapes_witness:
  "graph_input (graph (fix_input_shapes example_model 512)) =
     [\<lparr>vi_name = ''tokens'', vi_elem_type = 7, vi_dim = [DimValue 1, DimValue 512]\<rparr>,
      \<lparr>vi_name = ''style'', vi_elem_type = 1, vi_dim = [DimValue 1, DimValue 256]\<rparr>]"
proof -
  let ?outs = "graph_input (graph (fix_input_shapes example_model 512))"
  let ?ins = "[\<lparr>vi_name = ''tokens'', vi_elem_type = 7, vi_dim = [DimValue 1, DimParam ''seq'']\<rparr>,
      \<lparr>vi_name = ''style'', vi_elem_type = 1, vi_dim = [DimValue 1, DimValue 256]\<rparr>]"
  have ins: "graph_input (graph example_model) = ?ins"
    by (simp add: example_model_def)
  note spec = fix_input_shapes_shapes [of example_model 512, unfolded Let_def ins]
  from spec have len: "length ?outs = 2" by simp
  from spec have each: "\<forall>i<2.
      (vi_name (?ins ! i) \<in> set seq_input_names \<longrightarrow>
         ?outs ! i = (?ins ! i)\<lparr>vi_dim := [DimValue 1, DimValue 512]\<rparr>) \<and>
      (vi_name (?ins ! i) \<notin> set seq_input_names \<longrightarrow> ?outs ! i = ?ins ! i)"
    by simp
  from each have e0: "?outs ! 0 =
      \<lparr>vi_name = ''tokens'', vi_elem_type = 7, vi_dim = [DimValue 1, DimValue 512]\<rparr>"
    by (simp add: seq_input_names_def)
  from each have e1: "?outs ! 1 =
      \<lparr>vi_name = ''style'', vi_elem_type = 1, vi_dim = [DimValue 1, DimValue 256]\<rparr>"
    by (simp add: seq_input_names_def)
  from len e0 e1 show ?thesis
    by (simp add: list_eq_iff_nth_eq less_Suc_eq numeral_2_eq_2)
qed

section \<open>Output stabilizer: properties\<close>

lemma fix_output_matched:
  "vi_name out \<in> set audio_output_names \<Longrightarrow>
     fix_output M out = out\<lparr>vi_dim := [DimValue M]\<rparr>"
  by (simp add: fix_output_def add_dim_value_def clear_dims_Nil)

lemma fix_output_name: "vi_name (fix_output M out) = vi_name out"
  by (simp add: fix_output_def)

lemma map_name_fix_outputs: "map vi_name (fix_outputs M outs) = map vi_name outs"
  by (induction outs) (simp_all add: fix_output_name)

lemma fix_outputs_dims:
  "out \<in> set (fix_outputs M outs) \<Longrightarrow> vi_name out \<in> set audio_output_names \<Longrightarrow>
     vi_dim out = [DimValue M]"
proof (induction outs)
  case Nil
  then show ?case by simp
next
  case (Cons a outs)
  show ?case
  proof (cases "out = fix_output M a")
    case True
    with Cons.prems(2) have "vi_name a \<in> set audio_output_names"
      by (simp add: fix_output_name)
    with True show ?thesis by (simp add: fix_output_matched)
  next
    case False
    with Cons show ?thesis by simp
  qed
qed

lemma find_producer_Some:
  "find_producer name ns = Some i \<Longrightarrow> i < length ns \<and> name \<in> set (node_output (ns ! i))"
proof (induction ns arbitrary: i)
  case Nil
  then show ?case by simp
next
  case (Cons n ns)
  show ?case
  proof (cases "name \<in> set (node_output n)")
    case True
    with Cons.prems show ?thesis by simp
  next
    case False
    with Cons.prems obtain j where j: "find_producer name ns = Some j" "i = Suc j"
      by auto
    with Cons.IH [of j] show ?thesis by simp
  qed
qed

lemma find_producer_first:
  "find_producer name ns = Some i \<Longrightarrow> j < i \<Longrightarrow> name \<notin> set (node_output (ns ! j))"
proof (induction ns arbitrary: i j)
  case Nil
  then show ?case by simp
next
  case (Cons n ns)
  show ?case
  proof (cases "name \<in> set (node_output n)")
    case True
    with Cons.prems show ?thesis by simp
  next
    case False
    with Cons.prems obtain i' where i': "find_producer name ns = Some i'" "i = Suc i'"
      by auto
    show ?thesis
    proof (cases j)
      case 0
      with False show ?thesis by simp
    next
      case (Suc j')
      with Cons.prems(2) i' have "j' < i'" by simp
      with Cons.IH [OF i'(1)] Suc show ?thesis by simp
    qed
  qed
qed

lemma find_producer_None:
  "find_producer name ns = None \<longleftrightarrow> (\<forall>n \<in> set ns. name \<notin> set (node_output n))"
  by (induction ns) auto

lemma length_rename_outputs: "length (rename_outputs a b outs) = length outs"
  by (induction outs) simp_all

lemma nth_rename_outputs:
  "j < length outs \<Longrightarrow>
     rename_outputs a b outs ! j = (if outs ! j = a then b else outs ! j)"
proof (induction outs arbitrary: j)
  case Nil
  then show ?case by simp
next
  case (Cons out rest)
  then show ?case by (cases j) simp_all
qed

lemma map_name_update_output_shape:
  "map vi_name (update_output_shape name M outs) = map vi_name outs"
  by (induction outs) simp_all

lemma length_update_output_shape: "length (update_output_shape name M outs) = length outs"
  by (induction outs) simp_all

lemma nth_update_output_shape:
  "k < length outs \<Longrightarrow>
     update_output_shape name M outs ! k =
       (if vi_name (outs ! k) = name then (outs ! k)\<lparr>vi_dim := [DimValue M]\<rparr> else outs ! k)"
proof (induction outs arbitrary: k)
  case Nil
  then show ?case by simp
next
  case (Cons out rest)
  then show ?case by (cases k) (simp_all add: add_dim_value_def clear_dims_Nil)
qed

lemma update_output_shape_dims:
  assumes "out \<in> set (update_output_shape name M outs)" and "vi_name out = name"
  shows "vi_dim out = [DimValue M]"
proof -
  from assms(1) obtain k where
    "k < length (update_output_shape name M outs)" and "update_output_shape name M outs ! k = out"
    by (meson in_set_conv_nth)
  then have k: "k < length outs" and out: "update_output_shape name M outs ! k = out"
    by (simp_all add: length_update_output_shape)
  show ?thesis
  proof (cases "vi_name (outs ! k) = name")
    case True
    with k out have "out = (outs ! k)\<lparr>vi_dim := [DimValue M]\<rparr>"
      by (simp add: nth_update_output_shape)
    then show ?thesis by simp
  next
    case False
    with k out have "out = outs ! k"
      by (simp add: nth_update_output_shape)
    with False assms(2) show ?thesis by simp
  qed
qed

text \<open>The model that \<^verbatim>\<open>add_output_padding\<close> returns when an output matches, a node
  produces it and the length is not negative.\<close>

lemma add_output_padding_Inr:
  assumes "output_names (graph_output (graph model)) = orig # rest"
    and "find_producer orig (graph_node (graph model)) = Some i"
    and "0 \<le> M"
  shows "add_output_padding model M =
    Inr (model\<lparr>graph := (graph model)
      \<lparr>graph_output := update_output_shape orig M (graph_output (graph model)),
       graph_node :=
         (graph_node (graph model))
           [i := (graph_node (graph model) ! i)\<lparr>node_output :=
              rename_outputs orig (orig @ ''_unpadded'')
                (node_output (graph_node (graph model) ! i))\<rparr>]
         @ [\<lparr>op_type = ''Concat'', node_input = [orig @ ''_unpadded'', ''padding_zeros''],
             node_output = [orig @ ''_concat''], node_attribute = [(''axis'', AttrInt 0)]\<rparr>,
            \<lparr>op_type = ''Slice'',
             node_input = [orig @ ''_concat'', ''slice_starts'', ''slice_ends'', ''slice_axes''],
             node_output = [orig], node_attribute = []\<rparr>],
       graph_initializer :=
         graph_initializer (graph model)
         @ [\<lparr>t_name = ''padding_zeros'', t_data_type = 1, t_dims = [M],
             t_data = Float32Data (replicate (nat M) 0)\<rparr>,
            \<lparr>t_name = ''slice_starts'', t_data_type = 7, t_dims = [1], t_data = Int64Data [0]\<rparr>,
            \<lparr>t_name = ''slice_ends'', t_data_type = 7, t_dims = [1], t_data = Int64Data [M]\<rparr>,
            \<lparr>t_name = ''slice_axes'', t_data_type = 7, t_dims = [1],
             t_data = Int64Data [0]\<rparr>]\<rparr>\<rparr>)"
  using assms
  by (simp add: add_output_padding_def np_zeros_def from_array_float32_def
        from_array_int64_def make_node_def Let_def)

lemma add_output_padding_no_output:
  "output_names (graph_output (graph model)) = [] \<Longrightarrow> add_output_padding model M = Inr model"
  by (simp add: add_output_padding_def)

lemma add_output_padding_no_producer:
  "output_names (graph_output (graph model)) = orig # rest \<Longrightarrow>
   find_producer orig (graph_node (graph model)) = None \<Longrightarrow>
   add_output_padding model M = Inr model"
  by (simp add: add_output_padding_def)

lemma rename_outputs_map:
  "rename_outputs a b outs = map (\<lambda>out. if out = a then b else out) outs"
  by (induction outs) simp_all

text \<open>
  C1. In structural mode, when a graph output is in the selector list (the first such
  name is \<open>orig\<close>), a node produces it (the first such node has index \<open>i\<close>) and the
  length \<open>M\<close> is not negative, \<^verbatim>\<open>add_output_padding\<close> returns a model in which
  (1) node \<open>i\<close> has every output slot that held \<open>orig\<close> renamed to \<open>orig_unpadded\<close>, its
  other slots and its other fields as before, and every other old node unchanged;
  (2) a \<^verbatim>\<open>Concat\<close> node on axis 0 is appended, with the inputs \<open>orig_unpadded\<close> and
  \<^verbatim>\<open>padding_zeros\<close>, the latter a new initializer of \<open>M\<close> zeros; and
  (3) a \<^verbatim>\<open>Slice\<close> node is appended after it, which takes the range from 0 to \<open>M\<close> on
  axis 0 of the concatenated tensor and whose only output is \<open>orig\<close>.
\<close>

theorem add_output_padding_surgery:
  assumes "output_names (graph_output (graph model)) = orig # rest"
    and "find_producer orig (graph_node (graph model)) = Some i"
    and "0 \<le> M"
  shows "\<exists>model'. add_output_padding model M = Inr model' \<and>
    (let nodes = graph_node (graph model); nodes' = graph_node (graph model');
         n = length nodes
     in length nodes' = n + 2 \<and> i < n \<and>
        (\<forall>k<n. k \<noteq> i \<longrightarrow> nodes' ! k = nodes ! k) \<and>
        nodes' ! i =
          (nodes ! i)\<lparr>node_output :=
             map (\<lambda>out. if out = orig then orig @ ''_unpadded'' else out)
               (node_output (nodes ! i))\<rparr> \<and>
        nodes' ! n =
          \<lparr>op_type = ''Concat'', node_input = [orig @ ''_unpadded'', ''padding_zeros''],
           node_output = [orig @ ''_concat''], node_attribute = [(''axis'', AttrInt 0)]\<rparr> \<and>
        nodes' ! (n + 1) =
          \<lparr>op_type = ''Slice'',
           node_input = [orig @ ''_concat'', ''slice_starts'', ''slice_ends'', ''slice_axes''],
           node_output = [orig], node_attribute = []\<rparr>) \<and>
    graph_initializer (graph model') =
      graph_initializer (graph model)
      @ [\<lparr>t_name = ''padding_zeros'', t_data_type = 1, t_dims = [M],
          t_data = Float32Data (replicate (nat M) 0)\<rparr>,
         \<lparr>t_name = ''slice_starts'', t_data_type = 7, t_dims = [1], t_data = Int64Data [0]\<rparr>,
         \<lparr>t_name = ''slice_ends'', t_data_type = 7, t_dims = [1], t_data = Int64Data [M]\<rparr>,
         \<lparr>t_name = ''slice_axes'', t_data_type = 7, t_dims = [1], t_data = Int64Data [0]\<rparr>]"
proof -
  from assms(2) have i: "i < length (graph_node (graph model))"
    by (simp add: find_producer_Some)
  show ?thesis
    unfolding add_output_padding_Inr [OF assms]
    using i
    by (simp add: Let_def nth_append nth_list_update rename_outputs_map)
qed
theorem add_output_padding_surgery_witness:
  "\<exists>model'. add_output_padding example_model 3 = Inr model' \<and>
     graph_node (graph model') ! 1 =
       \<lparr>op_type = ''Tanh'', node_input = [''hidden''],
        node_output = [''audio_unpadded''], node_attribute = []\<rparr> \<and>
     graph_node (graph model') ! 2 =
       \<lparr>op_type = ''Concat'', node_input = [''audio_unpadded'', ''padding_zeros''],
        node_output = [''audio_concat''], node_attribute = [(''axis'', AttrInt 0)]\<rparr> \<and>
     graph_node (graph model') ! 3 =
       \<lparr>op_type = ''Slice'',
        node_input = [''audio_concat'', ''slice_starts'', ''slice_ends'', ''slice_axes''],
        node_output = [''audio''], node_attribute = []\<rparr> \<and>
     graph_initializer (graph model') ! 1 =
       \<lparr>t_name = ''padding_zeros'', t_data_type = 1, t_dims = [3],
        t_data = Float32Data [0, 0, 0]\<rparr>"
proof -
  have names: "output_names (graph_output (graph example_model)) = [''audio'']"
    by (simp add: example_model_def audio_output_names_def)
  have prod: "find_producer ''audio'' (graph_node (graph example_model)) = Some 1"
    by (simp add: example_model_def)
  have nodes: "graph_node (graph example_model) =
      [\<lparr>op_type = ''Gather'', node_input = [''embed'', ''tokens''],
        node_output = [''hidden''], node_attribute = []\<rparr>,
       \<lparr>op_type = ''Tanh'', node_input = [''hidden''],
        node_output = [''audio''], node_attribute = []\<rparr>]"
    by (simp add: example_model_def)
  have inits: "graph_initializer (graph example_model) =
      [\<lparr>t_name = ''embed'', t_data_type = 1, t_dims = [2], t_data = Float32Data [0, 1]\<rparr>]"
    by (simp add: example_model_def)
  show ?thesis
    using add_output_padding_surgery [OF names prod, of 3, unfolded Let_def nodes inits]
    by (auto simp: numeral_3_eq_3 numeral_2_eq_2)
qed

lemma output_names_subset: "set (output_names outs) \<subseteq> vi_name ` set outs"
  by (induction outs) auto

lemma output_names_selected: "set (output_names outs) \<subseteq> set audio_output_names"
  by (induction outs) auto

text \<open>
  C9. After the output rewrite with target length \<open>M\<close>, the declared shape of the
  designated output is the single literal dimension \<open>M\<close>. In declarative mode
  (\<^verbatim>\<open>fix_output_shapes\<close>) this holds for every graph output whose name is in the
  selector list. In structural mode (\<^verbatim>\<open>add_output_padding\<close>, with a matching output, a
  producer for the first matching name \<open>orig\<close> and \<open>M\<close> not negative) it holds for every
  graph output named \<open>orig\<close>, and there is one. Neither mode renames a graph output.
\<close>

theorem output_shape_fixed:
  "(\<forall>out \<in> set (graph_output (graph (fix_output_shapes model M))).
      vi_name out \<in> set audio_output_names \<longrightarrow> vi_dim out = [DimValue M]) \<and>
   map vi_name (graph_output (graph (fix_output_shapes model M))) =
     map vi_name (graph_output (graph model)) \<and>
   (output_names (graph_output (graph model)) = orig # rest \<longrightarrow>
    find_producer orig (graph_node (graph model)) = Some i \<longrightarrow> 0 \<le> M \<longrightarrow>
    (\<exists>model'. add_output_padding model M = Inr model' \<and>
       map vi_name (graph_output (graph model')) = map vi_name (graph_output (graph model)) \<and>
       orig \<in> vi_name ` set (graph_output (graph model')) \<and>
       (\<forall>out \<in> set (graph_output (graph model')).
          vi_name out = orig \<longrightarrow> vi_dim out = [DimValue M])))"
proof -
  have decl: "\<forall>out \<in> set (graph_output (graph (fix_output_shapes model M))).
      vi_name out \<in> set audio_output_names \<longrightarrow> vi_dim out = [DimValue M]"
    by (simp add: fix_output_shapes_def fix_outputs_dims)
  have names: "map vi_name (graph_output (graph (fix_output_shapes model M))) =
     map vi_name (graph_output (graph model))"
    by (simp add: fix_output_shapes_def map_name_fix_outputs)
  have struct: "\<exists>model'. add_output_padding model M = Inr model' \<and>
       map vi_name (graph_output (graph model')) = map vi_name (graph_output (graph model)) \<and>
       orig \<in> vi_name ` set (graph_output (graph model')) \<and>
       (\<forall>out \<in> set (graph_output (graph model')).
          vi_name out = orig \<longrightarrow> vi_dim out = [DimValue M])"
    if a: "output_names (graph_output (graph model)) = orig # rest"
      and b: "find_producer orig (graph_node (graph model)) = Some i" and c: "0 \<le> M"
  proof -
    let ?outs = "update_output_shape orig M (graph_output (graph model))"
    from a output_names_subset [of "graph_output (graph model)"]
    have "orig \<in> vi_name ` set (graph_output (graph model))" by auto
    then have "orig \<in> set (map vi_name (graph_output (graph model)))" by simp
    then have "orig \<in> set (map vi_name ?outs)"
      by (simp only: map_name_update_output_shape)
    then have mem: "orig \<in> vi_name ` set ?outs" by simp
    have dims: "\<forall>out \<in> set ?outs. vi_name out = orig \<longrightarrow> vi_dim out = [DimValue M]"
      by (simp add: update_output_shape_dims)
    show ?thesis
      unfolding add_output_padding_Inr [OF a b c]
      using mem dims by (simp add: map_name_update_output_shape)
  qed
  from decl names struct show ?thesis by blast
qed
theorem output_shape_fixed_witness:
  "map vi_dim (graph_output (graph (fix_output_shapes example_model 3))) = [[DimValue 3]] \<and>
   (\<exists>model'. add_output_padding example_model 3 = Inr model' \<and>
      map vi_dim (graph_output (graph model')) = [[DimValue 3]])"
proof -
  have outs: "map vi_name (graph_output (graph example_model)) = [''audio'']"
    by (simp add: example_model_def)
  have names: "output_names (graph_output (graph example_model)) = [''audio'']"
    by (simp add: example_model_def audio_output_names_def)
  have prod: "find_producer ''audio'' (graph_node (graph example_model)) = Some 1"
    by (simp add: example_model_def)
  note spec = output_shape_fixed [of example_model 3 "''audio''" "[]" 1, unfolded outs]
  from spec have "map vi_name (graph_output (graph (fix_output_shapes example_model 3))) =
      [''audio'']" by simp
  then obtain out where out: "graph_output (graph (fix_output_shapes example_model 3)) = [out]"
    and "vi_name out = ''audio''"
    by (auto simp: map_eq_Cons_conv)
  with spec have "vi_dim out = [DimValue 3]"
    by (simp add: audio_output_names_def)
  with out have decl:
    "map vi_dim (graph_output (graph (fix_output_shapes example_model 3))) = [[DimValue 3]]"
    by simp
  from spec names prod obtain model' where m: "add_output_padding example_model 3 = Inr model'"
    and n: "map vi_name (graph_output (graph model')) = [''audio'']"
    and d: "\<forall>out \<in> set (graph_output (graph model')).
          vi_name out = ''audio'' \<longrightarrow> vi_dim out = [DimValue 3]"
    by auto
  from n obtain out' where "graph_output (graph model') = [out']" and "vi_name out' = ''audio''"
    by (auto simp: map_eq_Cons_conv)
  with d have "map vi_dim (graph_output (graph model')) = [[DimValue 3]]"
    by simp
  with m decl show ?thesis by simp
qed

lemma changed_slots_same: "changed_slots outs outs = 0"
  by (induction outs) simp_all

lemma changed_slots_rename:
  "a \<noteq> b \<Longrightarrow> changed_slots outs (rename_outputs a b outs) = count_list outs a"
  by (induction outs) simp_all

lemma renamed_outputs_append: "renamed_outputs ns (ns @ extra) = 0"
  by (induction ns) (simp_all add: changed_slots_same)

lemma renamed_outputs_update:
  "i < length ns \<Longrightarrow>
     renamed_outputs ns (ns[i := n'] @ extra) =
       changed_slots (node_output (ns ! i)) (node_output n')"
proof (induction ns arbitrary: i)
  case Nil
  then show ?case by simp
next
  case (Cons n ns)
  show ?case
  proof (cases i)
    case 0
    then show ?thesis by (simp add: renamed_outputs_append)
  next
    case (Suc j)
    with Cons show ?thesis by (simp add: changed_slots_same)
  qed
qed

lemma unpadded_neq: "orig \<noteq> orig @ ''_unpadded''"
  by simp

lemma count_list_distinct: "distinct outs \<Longrightarrow> a \<in> set outs \<Longrightarrow> count_list outs a = 1"
  by (induction outs) auto
lemma count_list_member: "a \<in> set outs \<Longrightarrow> 1 \<le> count_list outs a"
  by (induction outs) auto

text \<open>
  C2, as the code has it. Declarative mode (\<^verbatim>\<open>fix_output_shapes\<close>) leaves the nodes and
  the initializers of the graph as they are, so their counts too. Structural mode
  (\<^verbatim>\<open>add_output_padding\<close>, with a matching output, a producer for the first matching
  name \<open>orig\<close> at index \<open>i\<close>, and \<open>M\<close> not negative) appends exactly two nodes, a
  \<^verbatim>\<open>Concat\<close> and a \<^verbatim>\<open>Slice\<close>, and exactly four initializers: the zero-fill constant
  and the three slice bounds, so one initializer when the slice bounds are not counted.
  The renaming loop has no \<^verbatim>\<open>break\<close>: it renames every output slot of the producer
  that holds \<open>orig\<close>. So the number of output slots of old nodes that are renamed is
  the number of slots of the producer holding \<open>orig\<close>, which is at least one, and
  exactly one when the producer lists each of its output names once.
\<close>

theorem rewrite_frame:
  "graph_node (graph (fix_output_shapes model M)) = graph_node (graph model) \<and>
   graph_initializer (graph (fix_output_shapes model M)) = graph_initializer (graph model) \<and>
   (output_names (graph_output (graph model)) = orig # rest \<longrightarrow>
    find_producer orig (graph_node (graph model)) = Some i \<longrightarrow> 0 \<le> M \<longrightarrow>
    (\<exists>model'. add_output_padding model M = Inr model' \<and>
       (let nodes = graph_node (graph model); nodes' = graph_node (graph model');
            inits = graph_initializer (graph model);
            inits' = graph_initializer (graph model')
        in length nodes' = length nodes + 2 \<and>
           map op_type (drop (length nodes) nodes') = [''Concat'', ''Slice''] \<and>
           length inits' = length inits + 4 \<and>
           take (length inits) inits' = inits \<and>
           map t_name (drop (length inits) inits') = ''padding_zeros'' # slice_bound_names \<and>
           count_zero_fill (drop (length inits) inits') = 1 \<and>
           renamed_outputs nodes nodes' = count_list (node_output (nodes ! i)) orig \<and>
           1 \<le> renamed_outputs nodes nodes' \<and>
           (distinct (node_output (nodes ! i)) \<longrightarrow> renamed_outputs nodes nodes' = 1))))"
proof -
  have decl: "graph_node (graph (fix_output_shapes model M)) = graph_node (graph model) \<and>
     graph_initializer (graph (fix_output_shapes model M)) = graph_initializer (graph model)"
    by (simp add: fix_output_shapes_def)
  have struct: "\<exists>model'. add_output_padding model M = Inr model' \<and>
       (let nodes = graph_node (graph model); nodes' = graph_node (graph model');
            inits = graph_initializer (graph model);
            inits' = graph_initializer (graph model')
        in length nodes' = length nodes + 2 \<and>
           map op_type (drop (length nodes) nodes') = [''Concat'', ''Slice''] \<and>
           length inits' = length inits + 4 \<and>
           take (length inits) inits' = inits \<and>
           map t_name (drop (length inits) inits') = ''padding_zeros'' # slice_bound_names \<and>
           count_zero_fill (drop (length inits) inits') = 1 \<and>
           renamed_outputs nodes nodes' = count_list (node_output (nodes ! i)) orig \<and>
           1 \<le> renamed_outputs nodes nodes' \<and>
           (distinct (node_output (nodes ! i)) \<longrightarrow> renamed_outputs nodes nodes' = 1))"
    if a: "output_names (graph_output (graph model)) = orig # rest"
      and b: "find_producer orig (graph_node (graph model)) = Some i" and c: "0 \<le> M"
  proof -
    let ?nodes = "graph_node (graph model)"
    from b have i: "i < length ?nodes" and mem: "orig \<in> set (node_output (?nodes ! i))"
      by (simp_all add: find_producer_Some)
    have cnt: "changed_slots (node_output (?nodes ! i))
        (rename_outputs orig (orig @ ''_unpadded'') (node_output (?nodes ! i))) =
        count_list (node_output (?nodes ! i)) orig"
      by (rule changed_slots_rename) (rule unpadded_neq)
    have one: "distinct (node_output (?nodes ! i)) \<longrightarrow>
        count_list (node_output (?nodes ! i)) orig = 1"
      using mem by (simp add: count_list_distinct)
    have some: "1 \<le> count_list (node_output (?nodes ! i)) orig"
      using mem by (rule count_list_member)
    show ?thesis
      unfolding add_output_padding_Inr [OF a b c]
      using i cnt one some
      by (simp add: Let_def renamed_outputs_update slice_bound_names_def)
  qed
  from decl struct show ?thesis by blast
qed
theorem rewrite_frame_witness:
  "length (graph_node (graph (fix_output_shapes example_model 3))) = 2 \<and>
   length (graph_initializer (graph (fix_output_shapes example_model 3))) = 1 \<and>
   (\<exists>model'. add_output_padding example_model 3 = Inr model' \<and>
      length (graph_node (graph model')) = 4 \<and>
      length (graph_initializer (graph model')) = 5 \<and>
      renamed_outputs (graph_node (graph example_model)) (graph_node (graph model')) = 1)"
proof -
  have names: "output_names (graph_output (graph example_model)) = [''audio'']"
    by (simp add: example_model_def audio_output_names_def)
  have prod: "find_producer ''audio'' (graph_node (graph example_model)) = Some 1"
    by (simp add: example_model_def)
  have len: "length (graph_node (graph example_model)) = 2"
    "length (graph_initializer (graph example_model)) = 1"
    by (simp_all add: example_model_def)
  have dist: "distinct (node_output (graph_node (graph example_model) ! 1))"
    by (simp add: example_model_def)
  from rewrite_frame [of example_model 3 "''audio''" "[]" 1] names prod dist len
  show ?thesis
    by (auto simp: Let_def)
qed

text \<open>The claim C2 says that structural mode renames exactly one existing node output.
  On the example whose last node lists \<^verbatim>\<open>audio\<close> in two output slots, both slots are
  renamed.\<close>

theorem duplicate_slot_counterexample:
  "output_names (graph_output (graph example_duplicate_slot)) = [''audio''] \<and>
   map node_output (graph_node (graph example_duplicate_slot)) =
     [[''hidden''], [''audio'', ''audio'']] \<and>
   map_sum id (map node_output \<circ> graph_node \<circ> graph)
       (add_output_padding example_duplicate_slot 3) =
     Inr [[''hidden''], [''audio_unpadded'', ''audio_unpadded''], [''audio_concat''],
          [''audio'']] \<and>
   map_sum id (renamed_outputs (graph_node (graph example_duplicate_slot)) \<circ> graph_node \<circ> graph)
       (add_output_padding example_duplicate_slot 3) = Inr 2"
proof -
  have names: "output_names (graph_output (graph example_duplicate_slot)) = [''audio'']"
    by (simp add: example_duplicate_slot_def example_model_def audio_output_names_def)
  have prod: "find_producer ''audio'' (graph_node (graph example_duplicate_slot)) = Some 1"
    by (simp add: example_duplicate_slot_def)
  have nodes: "graph_node (graph example_duplicate_slot) =
       [\<lparr>op_type = ''Gather'', node_input = [''embed'', ''tokens''],
         node_output = [''hidden''], node_attribute = []\<rparr>,
        \<lparr>op_type = ''Split'', node_input = [''hidden''],
         node_output = [''audio'', ''audio''], node_attribute = []\<rparr>]"
    by (simp add: example_duplicate_slot_def)
  have M: "(0::int) \<le> 3" by simp
  show ?thesis
    unfolding add_output_padding_Inr [OF names prod M]
    by (simp add: names nodes)
qed

section \<open>Structural mode: the two early returns\<close>

text \<open>
  C4, as the code has it. When no graph output is in the selector list,
  \<^verbatim>\<open>add_output_padding\<close> prints a warning and returns the model as it is: it raises no
  error. For every length \<open>M\<close> that is not negative it returns a model in every case.
  It takes and returns the model only, so it reads and writes no file.
\<close>

theorem add_output_padding_returns:
  "(output_names (graph_output (graph model)) = [] \<longrightarrow>
      add_output_padding model M = Inr model) \<and>
   (0 \<le> M \<longrightarrow> (\<exists>model'. add_output_padding model M = Inr model'))"
proof -
  have first: "output_names (graph_output (graph model)) = [] \<longrightarrow>
      add_output_padding model M = Inr model"
    by (simp add: add_output_padding_no_output)
  have second: "\<exists>model'. add_output_padding model M = Inr model'" if M: "0 \<le> M"
  proof (cases "output_names (graph_output (graph model))")
    case Nil
    then show ?thesis by (simp add: add_output_padding_no_output)
  next
    case (Cons orig rest)
    show ?thesis
    proof (cases "find_producer orig (graph_node (graph model))")
      case None
      with Cons show ?thesis by (simp add: add_output_padding_no_producer)
    next
      case (Some i)
      from add_output_padding_Inr [OF Cons Some M] show ?thesis by simp
    qed
  qed
  from first second show ?thesis by blast
qed

theorem add_output_padding_returns_witness:
  "add_output_padding example_no_audio 3 = Inr example_no_audio \<and>
   (\<exists>model'. add_output_padding example_model 3 = Inr model')"
proof -
  have "output_names (graph_output (graph example_no_audio)) = []"
    by (simp add: example_no_audio_def example_model_def audio_output_names_def)
  with add_output_padding_returns [of example_no_audio 3]
  have "add_output_padding example_no_audio 3 = Inr example_no_audio" by simp
  moreover from add_output_padding_returns [of example_model 3]
  have "\<exists>model'. add_output_padding example_model 3 = Inr model'" by simp
  ultimately show ?thesis by simp
qed

text \<open>The claim C4 says that \<^verbatim>\<open>add_output_padding\<close> fails when no output matches. On
  the example without an audio output it returns the model.\<close>

theorem no_target_output_counterexample:
  "output_names (graph_output (graph example_no_audio)) = [] \<and>
   add_output_padding example_no_audio 3 = Inr example_no_audio"
  by (simp add: add_output_padding_def example_no_audio_def example_model_def
        audio_output_names_def)
text \<open>
  C5, as the code has it. The designated output is the first graph output whose name is
  in the selector list. When no node produces it, \<^verbatim>\<open>add_output_padding\<close> prints a
  warning and returns the model as it is: it raises no error, whatever other outputs
  match. When a node produces it (and \<open>M\<close> is not negative), the graph outputs under
  any other name, the other matching ones too, are left as they are.
\<close>

theorem add_output_padding_first_match:
  "(output_names (graph_output (graph model)) = orig # rest \<longrightarrow>
    find_producer orig (graph_node (graph model)) = None \<longrightarrow>
      add_output_padding model M = Inr model) \<and>
   (output_names (graph_output (graph model)) = orig # rest \<longrightarrow>
    find_producer orig (graph_node (graph model)) = Some i \<longrightarrow> 0 \<le> M \<longrightarrow>
      (\<exists>model'. add_output_padding model M = Inr model' \<and>
         length (graph_output (graph model')) = length (graph_output (graph model)) \<and>
         (\<forall>k<length (graph_output (graph model)).
            vi_name (graph_output (graph model) ! k) \<noteq> orig \<longrightarrow>
            graph_output (graph model') ! k = graph_output (graph model) ! k)))"
proof -
  have first: "output_names (graph_output (graph model)) = orig # rest \<longrightarrow>
    find_producer orig (graph_node (graph model)) = None \<longrightarrow>
      add_output_padding model M = Inr model"
    by (simp add: add_output_padding_no_producer)
  have second: "\<exists>model'. add_output_padding model M = Inr model' \<and>
         length (graph_output (graph model')) = length (graph_output (graph model)) \<and>
         (\<forall>k<length (graph_output (graph model)).
            vi_name (graph_output (graph model) ! k) \<noteq> orig \<longrightarrow>
            graph_output (graph model') ! k = graph_output (graph model) ! k)"
    if a: "output_names (graph_output (graph model)) = orig # rest"
      and b: "find_producer orig (graph_node (graph model)) = Some i" and c: "0 \<le> M"
    unfolding add_output_padding_Inr [OF a b c]
    by (simp add: length_update_output_shape nth_update_output_shape)
  from first second show ?thesis by blast
qed

theorem add_output_padding_first_match_witness:
  "add_output_padding example_no_producer 3 = Inr example_no_producer \<and>
   (\<exists>model'. add_output_padding example_two_outputs 3 = Inr model' \<and>
      graph_output (graph model') ! 1 =
        \<lparr>vi_name = ''waveform'', vi_elem_type = 1, vi_dim = [DimParam ''samples'']\<rparr>)"
proof -
  have n1: "output_names (graph_output (graph example_no_producer)) = [''waveform'', ''audio'']"
    by (simp add: example_no_producer_def example_model_def audio_output_names_def)
  have p1: "find_producer ''waveform'' (graph_node (graph example_no_producer)) = None"
    by (simp add: example_no_producer_def example_model_def)
  from add_output_padding_first_match [of example_no_producer "''waveform''" "[''audio'']" 3] n1 p1
  have one: "add_output_padding example_no_producer 3 = Inr example_no_producer" by simp
  have n2: "output_names (graph_output (graph example_two_outputs)) = [''audio'', ''waveform'']"
    by (simp add: example_two_outputs_def example_model_def audio_output_names_def)
  have p2: "find_producer ''audio'' (graph_node (graph example_two_outputs)) = Some 1"
    by (simp add: example_two_outputs_def example_model_def)
  have outs: "graph_output (graph example_two_outputs) =
       [\<lparr>vi_name = ''audio'', vi_elem_type = 1, vi_dim = [DimParam ''samples'']\<rparr>,
        \<lparr>vi_name = ''waveform'', vi_elem_type = 1, vi_dim = [DimParam ''samples'']\<rparr>]"
    by (simp add: example_two_outputs_def)
  have len: "length (graph_output (graph example_two_outputs)) = 2"
    and other: "vi_name (graph_output (graph example_two_outputs) ! 1) \<noteq> ''audio''"
    by (simp_all add: outs)
  from add_output_padding_first_match [of example_two_outputs "''audio''" "[''waveform'']" 3 1]
    n2 p2
  obtain model' where m: "add_output_padding example_two_outputs 3 = Inr model'"
    and keep: "\<forall>k<length (graph_output (graph example_two_outputs)).
            vi_name (graph_output (graph example_two_outputs) ! k) \<noteq> ''audio'' \<longrightarrow>
            graph_output (graph model') ! k = graph_output (graph example_two_outputs) ! k"
    by auto
  from keep len other
  have "graph_output (graph model') ! 1 = graph_output (graph example_two_outputs) ! 1"
    by simp
  with m have two: "\<exists>model'. add_output_padding example_two_outputs 3 = Inr model' \<and>
      graph_output (graph model') ! 1 =
        \<lparr>vi_name = ''waveform'', vi_elem_type = 1, vi_dim = [DimParam ''samples'']\<rparr>"
    by (simp add: outs)
  from one two show ?thesis by simp
qed

text \<open>The claim C5 says that \<^verbatim>\<open>add_output_padding\<close> fails when no node produces the
  designated output. On the example with the outputs \<^verbatim>\<open>waveform\<close> and \<^verbatim>\<open>audio\<close> and no
  producer of \<^verbatim>\<open>waveform\<close> it returns the model.\<close>

theorem producer_not_found_counterexample:
  "output_names (graph_output (graph example_no_producer)) = [''waveform'', ''audio''] \<and>
   find_producer ''waveform'' (graph_node (graph example_no_producer)) = None \<and>
   add_output_padding example_no_producer 3 = Inr example_no_producer"
  by (simp add: add_output_padding_def example_no_producer_def example_model_def
        audio_output_names_def)

section \<open>Pipeline: properties\<close>

lemma add_output_padding_nonneg:
  assumes "0 \<le> M"
  shows "\<exists>model'. add_output_padding model M = Inr model'"
proof (cases "output_names (graph_output (graph model))")
  case Nil
  then show ?thesis by (simp add: add_output_padding_no_output)
next
  case (Cons orig rest)
  show ?thesis
  proof (cases "find_producer orig (graph_node (graph model))")
    case None
    with Cons show ?thesis by (simp add: add_output_padding_no_producer)
  next
    case (Some i)
    from add_output_padding_Inr [OF Cons Some assms] show ?thesis by simp
  qed
qed

lemma rewrite_model_nonneg:
  "0 \<le> arg_max_audio_samples a \<Longrightarrow> \<exists>model'. rewrite_model a model = Inr model'"
  by (simp add: rewrite_model_def Let_def add_output_padding_nonneg)

lemma analyze_model_loads:
  "w_files w path = Some model \<Longrightarrow> analyze_model w path = Inr (analyze_loaded model)"
  by (simp add: analyze_model_def onnx_load_def)

text \<open>What \<^verbatim>\<open>main\<close> does once the rewrite has returned \<open>model2\<close>.\<close>

lemma main_after_rewrite:
  assumes "\<not> arg_analyze_only a" and "arg_output a = Some out" and "out \<noteq> []"
    and "w_files w (arg_input a) = Some model" and "rewrite_model a model = Inr model2"
  shows "main check_model a w =
    (if validate_model check_model model2 then Inr (None, onnx_save model2 out w)
     else Inr (Some 1, w))"
proof -
  have "analyze_model (onnx_save model2 out w) out = Inr (analyze_loaded model2)"
    by (rule analyze_model_loads) (simp add: onnx_save_def)
  with assms show ?thesis
    by (simp add: main_def analyze_model_loads onnx_load_def Let_def)
qed

text \<open>
  C6. For every run of \<^verbatim>\<open>main\<close> that is not in analyze-only mode, has an output path,
  loads the input and whose rewrite returns the model \<open>model2\<close>: \<^verbatim>\<open>main\<close> returns, and
  \<open>model2\<close> is saved to the output path if and only if \<^verbatim>\<open>validate_model\<close> returns
  \<^verbatim>\<open>True\<close>. When it does, that is the one save of the run and \<^verbatim>\<open>main\<close> returns
  \<^verbatim>\<open>None\<close>; when it does not, no file is written and \<^verbatim>\<open>main\<close> returns 1.
\<close>

theorem main_saves_iff_valid:
  assumes "\<not> arg_analyze_only a" and "arg_output a = Some out" and "out \<noteq> []"
    and "w_files w (arg_input a) = Some model" and "rewrite_model a model = Inr model2"
  shows "\<exists>ret w'. main check_model a w = Inr (ret, w') \<and>
    ((w_saved w' = w_saved w @ [(out, model2)]) = validate_model check_model model2) \<and>
    (validate_model check_model model2 \<longrightarrow>
       ret = None \<and> w_files w' = (w_files w)(out \<mapsto> model2)) \<and>
    (\<not> validate_model check_model model2 \<longrightarrow> ret = Some 1 \<and> w' = w)"
  unfolding main_after_rewrite [OF assms]
  by (simp add: onnx_save_def)
theorem main_saves_iff_valid_witness:
  "\<exists>model2 w'. rewrite_model example_args example_model = Inr model2 \<and>
     main check_accepts example_args example_world = Inr (None, w') \<and>
     w_saved w' = [(''kokoro_static.onnx'', model2)] \<and>
     main check_rejects example_args example_world = Inr (Some 1, example_world)"
proof -
  have a: "\<not> arg_analyze_only example_args"
    and b: "arg_output example_args = Some ''kokoro_static.onnx''"
    and c: "''kokoro_static.onnx'' \<noteq> []"
    and d: "w_files example_world (arg_input example_args) = Some example_model"
    by (simp_all add: example_args_def example_world_def)
  have "0 \<le> arg_max_audio_samples example_args"
    by (simp add: example_args_def)
  then obtain model2 where e: "rewrite_model example_args example_model = Inr model2"
    using rewrite_model_nonneg by blast
  have acc: "validate_model check_accepts model2"
    and rej: "\<not> validate_model check_rejects model2"
    by (simp_all add: validate_model_def check_accepts_def check_rejects_def)
  have saved: "w_saved example_world = []"
    by (simp add: example_world_def)
  from main_saves_iff_valid [OF a b c d e, of check_accepts] acc saved
  obtain w' where "main check_accepts example_args example_world = Inr (None, w')"
    and "w_saved w' = [(''kokoro_static.onnx'', model2)]"
    by auto
  moreover from main_saves_iff_valid [OF a b c d e, of check_rejects] rej
  have "main check_rejects example_args example_world = Inr (Some 1, example_world)"
    by auto
  ultimately show ?thesis using e by blast
qed

section \<open>Introspector: properties\<close>

lemma report_shape_map: "report_shape ds shape = shape @ map report_dim ds"
  by (induction ds arbitrary: shape) simp_all

lemma report_dim_zero: "report_dim (DimValue 0) = IntEntry (- 1)"
  by (simp add: report_dim_def)

lemma report_dim_unset: "report_dim DimUnset = IntEntry (- 1)"
  by (simp add: report_dim_def)

lemma report_dim_forget: "report_dim (forget_zero_dim d) = report_dim d"
  by (simp add: forget_zero_dim_def report_dim_zero report_dim_unset)

lemma describe_tensor_forget: "describe_tensor (forget_zero_info v) = describe_tensor v"
  by (simp add: describe_tensor_def forget_zero_info_def report_shape_map report_dim_forget)

lemma analyze_tensors_forget:
  "analyze_tensors (map forget_zero_info vs) d = analyze_tensors vs d"
proof (induction vs arbitrary: d)
  case Nil
  then show ?case by simp
next
  case (Cons v vs)
  have "vi_name (forget_zero_info v) = vi_name v"
    by (simp add: forget_zero_info_def)
  with Cons show ?case by (simp add: describe_tensor_forget)
qed

lemma analyze_loaded_forget: "analyze_loaded (forget_zero_model model) = analyze_loaded model"
  by (simp add: analyze_loaded_def forget_zero_model_def analyze_tensors_forget)

lemma analyze_tensors_other:
  "n \<notin> vi_name ` set vs \<Longrightarrow> map_of (analyze_tensors vs d) n = map_of d n"
  by (induction vs arbitrary: d) (simp_all add: update_conv')

lemma analyze_tensors_last:
  assumes "i < length vs"
    and "\<forall>k<length vs. i < k \<longrightarrow> vi_name (vs ! k) \<noteq> vi_name (vs ! i)"
  shows "map_of (analyze_tensors vs d) (vi_name (vs ! i)) = Some (describe_tensor (vs ! i))"
  using assms
proof (induction vs arbitrary: i d)
  case Nil
  then show ?case by simp
next
  case (Cons v vs)
  show ?case
  proof (cases i)
    case 0
    have "vi_name v \<notin> vi_name ` set vs"
    proof
      assume "vi_name v \<in> vi_name ` set vs"
      then obtain k where "k < length vs" and "vi_name (vs ! k) = vi_name v"
        by (auto simp: in_set_conv_nth)
      with Cons.prems(2) 0 show False
        by (auto dest: spec [of _ "Suc k"])
    qed
    with 0 show ?thesis by (simp add: analyze_tensors_other update_conv')
  next
    case (Suc j)
    from Cons.prems Suc have j: "j < length vs" by simp
    have later: "\<forall>k<length vs. j < k \<longrightarrow> vi_name (vs ! k) \<noteq> vi_name (vs ! j)"
    proof (intro allI impI)
      fix k assume "k < length vs" and "j < k"
      with Cons.prems(2) Suc show "vi_name (vs ! k) \<noteq> vi_name (vs ! j)"
        by (auto dest: spec [of _ "Suc k"])
    qed
    from Cons.IH [OF j later] Suc show ?thesis by simp
  qed
qed
lemma zero_dims_reported:
  assumes "i < length vs"
    and "\<forall>k<length vs. i < k \<longrightarrow> vi_name (vs ! k) \<noteq> vi_name (vs ! i)"
  shows "\<exists>ti. map_of (analyze_tensors vs []) (vi_name (vs ! i)) = Some ti \<and>
     length (ti_shape ti) = length (vi_dim (vs ! i)) \<and>
     (\<forall>j<length (vi_dim (vs ! i)).
        vi_dim (vs ! i) ! j = DimValue 0 \<longrightarrow> ti_shape ti ! j = IntEntry (- 1))"
proof -
  have "map_of (analyze_tensors vs []) (vi_name (vs ! i)) = Some (describe_tensor (vs ! i))"
    using assms by (rule analyze_tensors_last)
  moreover have "length (ti_shape (describe_tensor (vs ! i))) = length (vi_dim (vs ! i))"
    by (simp add: describe_tensor_def report_shape_map)
  moreover have "\<forall>j<length (vi_dim (vs ! i)).
        vi_dim (vs ! i) ! j = DimValue 0 \<longrightarrow>
        ti_shape (describe_tensor (vs ! i)) ! j = IntEntry (- 1)"
    by (simp add: describe_tensor_def report_shape_map report_dim_zero)
  ultimately show ?thesis by blast
qed

text \<open>
  C10. \<^verbatim>\<open>analyze_model\<close> on a path that holds a model returns the dictionary
  \<^verbatim>\<open>info\<close>. For every graph input and every graph output (the last one of its name,
  since the dictionary is keyed by name), the entry under its name has one shape entry for
  each dimension, and the entry for a dimension of literal size 0 is \<open>-1\<close>, the entry of
  an unknown dimension. The report cannot tell the two apart: a file that holds the same
  model with every such dimension replaced by a dimension with nothing set gives the same
  \<^verbatim>\<open>info\<close>.
\<close>

theorem analyze_model_zero_dim:
  assumes "w_files w path = Some model"
  shows "\<exists>info. analyze_model w path = Inr info \<and>
    (\<forall>i<length (graph_input (graph model)).
       (\<forall>k<length (graph_input (graph model)).
          i < k \<longrightarrow> vi_name (graph_input (graph model) ! k) \<noteq>
                      vi_name (graph_input (graph model) ! i)) \<longrightarrow>
       (\<exists>ti. map_of (info_inputs info) (vi_name (graph_input (graph model) ! i)) = Some ti \<and>
          length (ti_shape ti) = length (vi_dim (graph_input (graph model) ! i)) \<and>
          (\<forall>j<length (vi_dim (graph_input (graph model) ! i)).
             vi_dim (graph_input (graph model) ! i) ! j = DimValue 0 \<longrightarrow>
             ti_shape ti ! j = IntEntry (- 1)))) \<and>
    (\<forall>i<length (graph_output (graph model)).
       (\<forall>k<length (graph_output (graph model)).
          i < k \<longrightarrow> vi_name (graph_output (graph model) ! k) \<noteq>
                      vi_name (graph_output (graph model) ! i)) \<longrightarrow>
       (\<exists>ti. map_of (info_outputs info) (vi_name (graph_output (graph model) ! i)) = Some ti \<and>
          length (ti_shape ti) = length (vi_dim (graph_output (graph model) ! i)) \<and>
          (\<forall>j<length (vi_dim (graph_output (graph model) ! i)).
             vi_dim (graph_output (graph model) ! i) ! j = DimValue 0 \<longrightarrow>
             ti_shape ti ! j = IntEntry (- 1)))) \<and>
    (\<forall>w' path'. w_files w' path' = Some (forget_zero_model model) \<longrightarrow>
       analyze_model w' path' = Inr info)"
proof -
  have run: "analyze_model w path = Inr (analyze_loaded model)"
    using assms by (rule analyze_model_loads)
  have ins: "\<forall>i<length (graph_input (graph model)).
       (\<forall>k<length (graph_input (graph model)).
          i < k \<longrightarrow> vi_name (graph_input (graph model) ! k) \<noteq>
                      vi_name (graph_input (graph model) ! i)) \<longrightarrow>
       (\<exists>ti. map_of (info_inputs (analyze_loaded model))
                (vi_name (graph_input (graph model) ! i)) = Some ti \<and>
          length (ti_shape ti) = length (vi_dim (graph_input (graph model) ! i)) \<and>
          (\<forall>j<length (vi_dim (graph_input (graph model) ! i)).
             vi_dim (graph_input (graph model) ! i) ! j = DimValue 0 \<longrightarrow>
             ti_shape ti ! j = IntEntry (- 1)))"
    by (intro allI impI) (simp add: analyze_loaded_def zero_dims_reported)
  have outs: "\<forall>i<length (graph_output (graph model)).
       (\<forall>k<length (graph_output (graph model)).
          i < k \<longrightarrow> vi_name (graph_output (graph model) ! k) \<noteq>
                      vi_name (graph_output (graph model) ! i)) \<longrightarrow>
       (\<exists>ti. map_of (info_outputs (analyze_loaded model))
                (vi_name (graph_output (graph model) ! i)) = Some ti \<and>
          length (ti_shape ti) = length (vi_dim (graph_output (graph model) ! i)) \<and>
          (\<forall>j<length (vi_dim (graph_output (graph model) ! i)).
             vi_dim (graph_output (graph model) ! i) ! j = DimValue 0 \<longrightarrow>
             ti_shape ti ! j = IntEntry (- 1)))"
    by (intro allI impI) (simp add: analyze_loaded_def zero_dims_reported)
  have same: "\<forall>w' path'. w_files w' path' = Some (forget_zero_model model) \<longrightarrow>
       analyze_model w' path' = Inr (analyze_loaded model)"
    by (simp add: analyze_model_loads analyze_loaded_forget)
  from run ins outs same show ?thesis by blast
qed
theorem analyze_model_zero_dim_witness:
  "\<exists>info ti. analyze_model example_zero_world ''zero.onnx'' = Inr info \<and>
     map_of (info_inputs info) ''tokens'' = Some ti \<and>
     ti_shape ti ! 1 = IntEntry (- 1) \<and>
     analyze_model example_zero_world ''unset.onnx'' = Inr info"
proof -
  have zero: "w_files example_zero_world ''zero.onnx'' = Some example_zero_dim"
    and other: "w_files example_zero_world ''unset.onnx'' =
      Some (forget_zero_model example_zero_dim)"
    by (simp_all add: example_zero_world_def)
  have ins: "graph_input (graph example_zero_dim) =
      [\<lparr>vi_name = ''tokens'', vi_elem_type = 7, vi_dim = [DimValue 1, DimValue 0]\<rparr>]"
    by (simp add: example_zero_dim_def)
  from analyze_model_zero_dim [OF zero, unfolded ins]
  obtain info where run: "analyze_model example_zero_world ''zero.onnx'' = Inr info"
    and inputs: "\<exists>ti. map_of (info_inputs info) ''tokens'' = Some ti \<and>
          length (ti_shape ti) = 2 \<and>
          (\<forall>j<2. [DimValue 1, DimValue 0] ! j = DimValue 0 \<longrightarrow>
             ti_shape ti ! j = IntEntry (- 1))"
    and same: "\<forall>w' path'. w_files w' path' = Some (forget_zero_model example_zero_dim) \<longrightarrow>
       analyze_model w' path' = Inr info"
    by auto
  from inputs obtain ti where ti: "map_of (info_inputs info) ''tokens'' = Some ti"
    and "\<forall>j<2. [DimValue 1, DimValue 0] ! j = DimValue 0 \<longrightarrow>
             ti_shape ti ! j = IntEntry (- 1)"
    by blast
  then have minus: "ti_shape ti ! 1 = IntEntry (- 1)"
    by simp
  from same other have "analyze_model example_zero_world ''unset.onnx'' = Inr info"
    by blast
  with run ti minus show ?thesis by blast
qed

end
